theory Spec2Isabelle
  imports Main
begin

section \<open>Password validation (sentry/auth/password_validation.py)\<close>

subsection \<open>Exceptions\<close>

text \<open>
  Django's \<open>ValidationError\<close>. Built from one message, with an optional code and
  parameters, it is a single failure, and its \<open>error_list\<close> is the error itself. Built
  from a list of errors, its \<open>error_list\<close> is the list of the single failures of the
  members. Built from a dict, it has an \<open>error_dict\<close> from field names to lists of
  single failures. The parameters of the validators of this module are integers.
\<close>

datatype error_message =
  ErrorMessage string "string option" "(string \<times> int) list"

datatype validation_error =
    SingleError error_message
  | ErrorList "error_message list"
  | ErrorDict "(string \<times> error_message list) list"

text \<open>
  What an error adds to the \<open>error_list\<close> of a \<open>ValidationError\<close> built from a list
  that holds it: \<open>sum(message.error_dict.values(), [])\<close> for a member with an
  \<open>error_dict\<close>, \<open>message.error_list\<close> for every other member.
\<close>

fun error_messages :: "validation_error \<Rightarrow> error_message list" where
  "error_messages (ErrorDict error_dict) = concat (map snd error_dict)"
| "error_messages (SingleError m) = [m]"
| "error_messages (ErrorList error_list) = error_list"

text \<open>\<open>ValidationError(errors)\<close> for a list of \<open>ValidationError\<close> instances.\<close>

definition ValidationError_of_list :: "validation_error list \<Rightarrow> validation_error" where
  "ValidationError_of_list errors = ErrorList (concat (map error_messages errors))"

text \<open>
  The exceptions that travel through this module. \<open>OtherException\<close> stands for every
  exception class that the module neither raises nor catches by name.
\<close>

datatype exn =
    ValidationError validation_error
  | ImproperlyConfigured string
  | ImportError string
  | TypeError string
  | OtherException string

fun is_ValidationError :: "exn \<Rightarrow> bool" where
  "is_ValidationError (ValidationError e) = True"
| "is_ValidationError _ = False"

subsection \<open>Validators, classes and descriptors\<close>

text \<open>
  A help text is a \<open>str\<close>, or a \<open>SafeString\<close>: a text marked as safe to put into HTML as
  it is (\<open>mark_safe\<close>).
\<close>

datatype help_text = Str string | SafeString string

text \<open>
  A validator is any object with the two methods the module calls. \<open>validate\<close> returns
  \<open>None\<close> (\<open>Inr ()\<close>) or raises (\<open>Inl\<close>); \<open>get_help_text\<close> returns a text or raises. A
  password is a Python \<open>str\<close>: each element of the list is one code point, so \<open>length\<close>
  is \<open>len\<close>. The user argument is optional (\<open>user=None\<close>).
\<close>

record 'u validator =
  validate :: "string \<Rightarrow> 'u option \<Rightarrow> exn + unit"
  get_help_text :: "exn + help_text"

text \<open>
  The options of a descriptor are a dict from keyword names to values, passed to the
  class as keyword arguments (\<open>cls(**options)\<close>): a list of pairs with distinct keys;
  the option values of this module are integers. A class is called with the options and
  returns an instance or raises.
\<close>

type_synonym options = "(string \<times> int) list"

type_synonym 'u cls = "options \<Rightarrow> exn + 'u validator"

record descriptor =
  NAME :: string
  OPTIONS :: "options option"

text \<open>\<open>validator.get("OPTIONS", {})\<close>\<close>

definition get_OPTIONS :: "descriptor \<Rightarrow> options" where
  "get_OPTIONS validator = (case OPTIONS validator of None \<Rightarrow> [] | Some opts \<Rightarrow> opts)"

text \<open>
  \<open>sentry.utils.imports.import_string\<close> is not part of the sources at hand; it is a
  parameter of everything that calls it: a function from a dotted name to a class, which
  raises \<open>ImportError\<close> when the name does not resolve.
\<close>

type_synonym 'u import_string = "string \<Rightarrow> exn + 'u cls"

subsection \<open>get_password_validators\<close>

definition improperly_configured_msg :: "string \<Rightarrow> string" where
  "improperly_configured_msg name =
     ''The module in NAME could not be imported: '' @ name
       @ ''. Check your AUTH_PASSWORD_VALIDATORS setting.''"

text \<open>
  The loop of \<open>get_password_validators\<close>, with the local list \<open>validators\<close> as an
  accumulator. It returns the list as it stands when the loop is left, together with the
  way it is left: normally, or by the exception raised. On an exception the list holds
  the instances that were built before it.
\<close>

fun get_password_validators_loop ::
  "'u import_string \<Rightarrow> descriptor list \<Rightarrow> 'u validator list
     \<Rightarrow> 'u validator list \<times> (exn + unit)" where
  "get_password_validators_loop import_string [] validators = (validators, Inr ())"
| "get_password_validators_loop import_string (validator # rest) validators =
     (case import_string (NAME validator) of
        Inl (ImportError m) \<Rightarrow>
          (validators, Inl (ImproperlyConfigured (improperly_configured_msg (NAME validator))))
      | Inl e \<Rightarrow> (validators, Inl e)
      | Inr cls \<Rightarrow>
          (case cls (get_OPTIONS validator) of
             Inl e \<Rightarrow> (validators, Inl e)
           | Inr instance \<Rightarrow>
               get_password_validators_loop import_string rest (validators @ [instance])))"

definition get_password_validators_run ::
  "'u import_string \<Rightarrow> descriptor list \<Rightarrow> 'u validator list \<times> (exn + unit)" where
  "get_password_validators_run import_string validator_config =
     get_password_validators_loop import_string validator_config []"

definition get_password_validators ::
  "'u import_string \<Rightarrow> descriptor list \<Rightarrow> exn + 'u validator list" where
  "get_password_validators import_string validator_config =
     (case get_password_validators_run import_string validator_config of
        (validators, Inr _) \<Rightarrow> Inr validators
      | (validators, Inl e) \<Rightarrow> Inl e)"

text \<open>The instances that exist when \<open>get_password_validators\<close> returns or raises.\<close>

definition instances_built :: "'u import_string \<Rightarrow> descriptor list \<Rightarrow> 'u validator list" where
  "instances_built import_string validator_config =
     fst (get_password_validators_run import_string validator_config)"

text \<open>\<open>settings.AUTH_PASSWORD_VALIDATORS\<close> is the second parameter.\<close>

definition get_default_password_validators ::
  "'u import_string \<Rightarrow> descriptor list \<Rightarrow> exn + 'u validator list" where
  "get_default_password_validators import_string AUTH_PASSWORD_VALIDATORS =
     get_password_validators import_string AUTH_PASSWORD_VALIDATORS"

subsection \<open>validate_password\<close>

text \<open>
  The loop of \<open>validate_password\<close>: \<open>errors\<close> is the local list, \<open>calls\<close> counts the
  validators whose \<open>validate\<close> has been called. Only \<open>ValidationError\<close> is caught; any
  other exception leaves the loop at once.
\<close>

fun validate_password_loop ::
  "string \<Rightarrow> 'u option \<Rightarrow> 'u validator list \<Rightarrow> validation_error list \<Rightarrow> nat
     \<Rightarrow> nat \<times> (exn + validation_error list)" where
  "validate_password_loop password user [] errors calls = (calls, Inr errors)"
| "validate_password_loop password user (validator # rest) errors calls =
     (case validate validator password user of
        Inr _ \<Rightarrow> validate_password_loop password user rest errors (Suc calls)
      | Inl (ValidationError error) \<Rightarrow>
          validate_password_loop password user rest (errors @ [error]) (Suc calls)
      | Inl e \<Rightarrow> (Suc calls, Inl e))"

text \<open>
  \<open>validate_password\<close> with its three arguments, after the two the module reads from
  its environment. The first component of the result is the number of validators that
  were run, the second is \<open>None\<close> (\<open>Inr ()\<close>) or the exception raised.
\<close>

definition validate_password_run ::
  "'u import_string \<Rightarrow> descriptor list \<Rightarrow> string \<Rightarrow> 'u option \<Rightarrow> 'u validator list option
     \<Rightarrow> nat \<times> (exn + unit)" where
  "validate_password_run import_string AUTH_PASSWORD_VALIDATORS password user password_validators =
     (case (case password_validators of
              None \<Rightarrow> get_default_password_validators import_string AUTH_PASSWORD_VALIDATORS
            | Some vs \<Rightarrow> Inr vs) of
        Inl e \<Rightarrow> (0, Inl e)
      | Inr vs \<Rightarrow>
          (case validate_password_loop password user vs [] 0 of
             (calls, Inl e) \<Rightarrow> (calls, Inl e)
           | (calls, Inr errors) \<Rightarrow>
               if errors \<noteq> []
               then (calls, Inl (ValidationError (ValidationError_of_list errors)))
               else (calls, Inr ())))"

definition validate_password ::
  "'u import_string \<Rightarrow> descriptor list \<Rightarrow> string \<Rightarrow> 'u option \<Rightarrow> 'u validator list option
     \<Rightarrow> exn + unit" where
  "validate_password import_string AUTH_PASSWORD_VALIDATORS password user password_validators =
     snd (validate_password_run import_string AUTH_PASSWORD_VALIDATORS password user
            password_validators)"


subsection \<open>Help texts\<close>

text \<open>
  The loop of \<open>password_validators_help_texts\<close>; an exception of \<open>get_help_text\<close> leaves
  it at once.
\<close>

fun password_validators_help_texts_loop ::
  "'u validator list \<Rightarrow> help_text list \<Rightarrow> exn + help_text list" where
  "password_validators_help_texts_loop [] help_texts = Inr help_texts"
| "password_validators_help_texts_loop (validator # rest) help_texts =
     (case get_help_text validator of
        Inl e \<Rightarrow> Inl e
      | Inr t \<Rightarrow> password_validators_help_texts_loop rest (help_texts @ [t]))"

definition password_validators_help_texts ::
  "'u import_string \<Rightarrow> descriptor list \<Rightarrow> 'u validator list option \<Rightarrow> exn + help_text list" where
  "password_validators_help_texts import_string AUTH_PASSWORD_VALIDATORS password_validators =
     (case (case password_validators of
              None \<Rightarrow> get_default_password_validators import_string AUTH_PASSWORD_VALIDATORS
            | Some vs \<Rightarrow> Inr vs) of
        Inl e \<Rightarrow> Inl e
      | Inr vs \<Rightarrow> password_validators_help_texts_loop vs [])"

text \<open>
  Django's \<open>format_html\<close> passes each argument through \<open>conditional_escape\<close> before it
  fills the template. \<open>escape\<close> replaces the five characters \<open>&\<close>, \<open><\<close>, \<open>>\<close>, the double
  and the single quote by entities; \<open>conditional_escape\<close> escapes a \<open>str\<close> and leaves a
  text that is marked safe as it is.
\<close>

definition escape_char :: "char \<Rightarrow> string" where
  "escape_char c =
     (if c = CHR ''&'' then ''&amp;''
      else if c = CHR ''<'' then ''&lt;''
      else if c = CHR ''>'' then ''&gt;''
      else if c = CHR 0x22 then ''&quot;''
      else if c = CHR 0x27 then ''&#x27;''
      else [c])"

definition escape :: "string \<Rightarrow> string" where
  "escape s = concat (map escape_char s)"

fun conditional_escape :: "help_text \<Rightarrow> string" where
  "conditional_escape (SafeString s) = s"
| "conditional_escape (Str s) = escape s"

text \<open>\<open>format_html("<li>{}</li>", help_text)\<close>\<close>

definition format_html_li :: "help_text \<Rightarrow> string" where
  "format_html_li help_text = ''<li>'' @ conditional_escape help_text @ ''</li>''"

definition password_validators_help_text_html ::
  "'u import_string \<Rightarrow> descriptor list \<Rightarrow> 'u validator list option \<Rightarrow> exn + string" where
  "password_validators_help_text_html import_string AUTH_PASSWORD_VALIDATORS password_validators =
     (case password_validators_help_texts import_string AUTH_PASSWORD_VALIDATORS
             password_validators of
        Inl e \<Rightarrow> Inl e
      | Inr help_texts \<Rightarrow>
          (let help_items = map format_html_li help_texts
           in Inr (if help_items \<noteq> [] then ''<ul>'' @ concat help_items @ ''</ul>'' else '''')))"

subsection \<open>MaximumLengthValidator\<close>

record MaximumLengthValidator =
  max_length :: int

text \<open>\<open>__init__(self, max_length=256)\<close>\<close>

definition MaximumLengthValidator_init :: "int option \<Rightarrow> MaximumLengthValidator" where
  "MaximumLengthValidator_init arg =
     \<lparr>max_length = (case arg of None \<Rightarrow> 256 | Some m \<Rightarrow> m)\<rparr>"

text \<open>
  \<open>ngettext\<close> with no translation active: the singular form for the number one, the
  plural form for every other number.
\<close>

definition ngettext :: "string \<Rightarrow> string \<Rightarrow> int \<Rightarrow> string" where
  "ngettext singular plural n = (if n = 1 then singular else plural)"

definition MaximumLengthValidator_validate ::
  "MaximumLengthValidator \<Rightarrow> string \<Rightarrow> 'u option \<Rightarrow> exn + unit" where
  "MaximumLengthValidator_validate self password user =
     (if int (length password) > max_length self then
        Inl (ValidationError
          (SingleError
             (ErrorMessage
                (ngettext
                   ''This password is too long. It must contain no more than %(max_length)d character.''
                   ''This password is too long. It must contain no more than %(max_length)d characters.''
                   (max_length self))
                (Some ''password_too_long'')
                [(''max_length'', max_length self)])))
      else Inr ())"

text \<open>The decimal numeral that \<open>%d\<close> prints.\<close>

fun decimal :: "nat \<Rightarrow> string" where
  "decimal n =
     (if n < 10 then [''0123456789'' ! n]
      else decimal (n div 10) @ [''0123456789'' ! (n mod 10)])"

declare decimal.simps [simp del]

definition format_d :: "int \<Rightarrow> string" where
  "format_d i = (if i < 0 then CHR ''-'' # decimal (nat (- i)) else decimal (nat i))"

text \<open>
  The template of \<open>get_help_text\<close> has one placeholder, \<open>%(max_length)d\<close>; the text is
  the part before it, the number, and the part after it.
\<close>

definition MaximumLengthValidator_get_help_text :: "MaximumLengthValidator \<Rightarrow> string" where
  "MaximumLengthValidator_get_help_text self =
     ''Your password must contain no more than '' @ format_d (max_length self)
       @ ngettext '' character.'' '' characters.'' (max_length self)"

text \<open>The instance as the pipeline sees it: an object with the two methods.\<close>

definition MaximumLengthValidator_object :: "MaximumLengthValidator \<Rightarrow> 'u validator" where
  "MaximumLengthValidator_object self =
     \<lparr>validate = MaximumLengthValidator_validate self,
      get_help_text = Inr (Str (MaximumLengthValidator_get_help_text self))\<rparr>"

text \<open>
  Calling the class with keyword arguments: a keyword other than \<open>max_length\<close> is a
  \<open>TypeError\<close>, a missing \<open>max_length\<close> takes the default.
\<close>

definition MaximumLengthValidator_cls :: "'u cls" where
  "MaximumLengthValidator_cls opts =
     (if list_all (\<lambda>(k, v). k = ''max_length'') opts
      then Inr (MaximumLengthValidator_object
                  (MaximumLengthValidator_init (map_of opts ''max_length'')))
      else Inl (TypeError ''__init__() got an unexpected keyword argument''))"

text \<open>
  Modelled from the spec: \<open>sentry.utils.imports.import_string\<close> is missing from the
  sources; the spec describes it as a name-to-type lookup that either returns a usable
  type or signals "not found". This instance knows the one class of this module and
  raises \<open>ImportError\<close> for every other name.
\<close>

definition module_import_string :: "'u import_string" where
  "module_import_string name =
     (if name = ''sentry.auth.password_validation.MaximumLengthValidator''
      then Inr MaximumLengthValidator_cls
      else Inl (ImportError name))"

subsection \<open>Vocabulary of the properties\<close>

text \<open>
  Resolving a descriptor's name and calling the class with the descriptor's options, as
  one step of \<open>get_password_validators\<close> does.
\<close>

definition construct :: "'u import_string \<Rightarrow> descriptor \<Rightarrow> exn + 'u validator" where
  "construct import_string validator =
     (case import_string (NAME validator) of
        Inl e \<Rightarrow> Inl e
      | Inr cls \<Rightarrow> cls (get_OPTIONS validator))"

text \<open>A name is unresolvable when \<open>import_string\<close> raises \<open>ImportError\<close> for it.\<close>

definition unresolvable :: "'u import_string \<Rightarrow> string \<Rightarrow> bool" where
  "unresolvable import_string name =
     (case import_string name of Inl (ImportError m) \<Rightarrow> True | _ \<Rightarrow> False)"

definition resolvable :: "'u import_string \<Rightarrow> string \<Rightarrow> bool" where
  "resolvable import_string name =
     (case import_string name of Inr cls \<Rightarrow> True | Inl e \<Rightarrow> False)"

text \<open>
  The failure a validator reports for a password: the \<open>ValidationError\<close> it raises, if
  it raises one. A password violates a validator that reports a failure and satisfies a
  validator that returns.
\<close>

fun failure :: "exn + unit \<Rightarrow> validation_error option" where
  "failure (Inl (ValidationError e)) = Some e"
| "failure _ = None"

definition violates :: "string \<Rightarrow> 'u option \<Rightarrow> 'u validator \<Rightarrow> bool" where
  "violates password user validator = (failure (validate validator password user) \<noteq> None)"

definition satisfies :: "string \<Rightarrow> 'u option \<Rightarrow> 'u validator \<Rightarrow> bool" where
  "satisfies password user validator = (validate validator password user = Inr ())"

definition failures :: "string \<Rightarrow> 'u option \<Rightarrow> 'u validator list \<Rightarrow> validation_error list" where
  "failures password user validators =
     List.map_filter (\<lambda>validator. failure (validate validator password user)) validators"


fun is_safe :: "help_text \<Rightarrow> bool" where
  "is_safe (SafeString s) = True"
| "is_safe (Str s) = False"

text \<open>The number of positions of a text at which a pattern starts.\<close>

fun occurrences :: "string \<Rightarrow> string \<Rightarrow> nat" where
  "occurrences p [] = (if p = [] then 1 else 0)"
| "occurrences p (c # cs) =
     (if take (length p) (c # cs) = p then 1 else 0) + occurrences p cs"

section \<open>Soft deletion (sentry/db/models/paranoia.py)\<close>

subsection \<open>The persistence layer\<close>

text \<open>
  A stored record has a primary key, the nullable \<open>date_deleted\<close> column and the other
  columns of its model. The database holds the rows of the model's table and the clock
  that \<open>timezone.now()\<close> reads; time is counted in ticks.
\<close>

type_synonym timestamp = nat

record 'f row =
  pk :: nat
  date_deleted :: "timestamp option"
  other_fields :: 'f

record 'f database =
  clock :: timestamp
  rows :: "'f row list"

text \<open>
  \<open>timezone.now()\<close>: the time of the reading, which is the time of the last reading
  plus the time that has passed since; the clock does not run backwards.
\<close>

definition timezone_now :: "nat \<Rightarrow> 'f database \<Rightarrow> timestamp \<times> 'f database" where
  "timezone_now elapsed db = (clock db + elapsed, db\<lparr>clock := clock db + elapsed\<rparr>)"

text \<open>
  A query set is the condition its filters have accumulated; it reads and writes the rows
  that meet the condition when it is evaluated. These are the primitives of Django's
  \<open>QuerySet\<close> that the module uses: the constructor, \<open>filter\<close>, evaluation and \<open>update\<close>.
\<close>

record 'f QuerySet =
  condition :: "'f row \<Rightarrow> bool"

definition QuerySet_init :: "'f QuerySet" where
  "QuerySet_init = \<lparr>condition = (\<lambda>r. True)\<rparr>"

definition QuerySet_filter :: "'f QuerySet \<Rightarrow> ('f row \<Rightarrow> bool) \<Rightarrow> 'f QuerySet" where
  "QuerySet_filter self cond = \<lparr>condition = (\<lambda>r. condition self r \<and> cond r)\<rparr>"

definition QuerySet_fetch :: "'f QuerySet \<Rightarrow> 'f database \<Rightarrow> 'f row list" where
  "QuerySet_fetch self db = filter (condition self) (rows db)"

definition QuerySet_update ::
  "'f QuerySet \<Rightarrow> ('f row \<Rightarrow> 'f row) \<Rightarrow> 'f database \<Rightarrow> 'f database" where
  "QuerySet_update self assign db =
     db\<lparr>rows := map (\<lambda>r. if condition self r then assign r else r) (rows db)\<rparr>"

definition date_deleted__isnull :: "bool \<Rightarrow> 'f row \<Rightarrow> bool" where
  "date_deleted__isnull b r = ((date_deleted r = None) = b)"

text \<open>
  Modelled from the spec: \<open>sentry.db.models.BaseManager\<close> is missing from the sources; on
  a soft-deletable model it is the unfiltered access path, which "applies no such filter,
  returning records in both states".
\<close>

definition BaseManager_get_queryset :: "'f QuerySet" where
  "BaseManager_get_queryset = QuerySet_init"

text \<open>
  Modelled from the spec: \<open>sentry.db.models.BaseModel.update\<close> is missing from the
  sources; the spec names it the "single-record update primitive" of the persistence
  layer. It writes the assignment to the stored row of the record, found by its primary
  key, and to the instance in memory.
\<close>

definition BaseModel_update ::
  "'f row \<Rightarrow> ('f row \<Rightarrow> 'f row) \<Rightarrow> 'f database \<Rightarrow> 'f row \<times> 'f database" where
  "BaseModel_update self assign db =
     (assign self,
      QuerySet_update (QuerySet_filter BaseManager_get_queryset (\<lambda>r. pk r = pk self)) assign db)"

subsection \<open>ParanoidQuerySet, ParanoidManager, ParanoidModel\<close>

text \<open>\<open>self.update(date_deleted=timezone.now())\<close> on a query set.\<close>

definition ParanoidQuerySet_delete :: "nat \<Rightarrow> 'f QuerySet \<Rightarrow> 'f database \<Rightarrow> 'f database" where
  "ParanoidQuerySet_delete elapsed self db =
     (case timezone_now elapsed db of
        (now, db') \<Rightarrow> QuerySet_update self (\<lambda>r. r\<lparr>date_deleted := Some now\<rparr>) db')"

text \<open>\<open>ParanoidQuerySet(self.model, using=self._db).filter(date_deleted__isnull=True)\<close>\<close>

definition ParanoidManager_get_queryset :: "'f QuerySet" where
  "ParanoidManager_get_queryset = QuerySet_filter QuerySet_init (date_deleted__isnull True)"

text \<open>The two managers of \<open>ParanoidModel\<close>, evaluated.\<close>

definition objects :: "'f database \<Rightarrow> 'f row list" where
  "objects db = QuerySet_fetch ParanoidManager_get_queryset db"

definition with_deleted :: "'f database \<Rightarrow> 'f row list" where
  "with_deleted db = QuerySet_fetch BaseManager_get_queryset db"

text \<open>\<open>self.update(date_deleted=timezone.now())\<close> on an instance.\<close>

definition ParanoidModel_delete ::
  "nat \<Rightarrow> 'f row \<Rightarrow> 'f database \<Rightarrow> 'f row \<times> 'f database" where
  "ParanoidModel_delete elapsed self db =
     (case timezone_now elapsed db of
        (now, db') \<Rightarrow> BaseModel_update self (\<lambda>r. r\<lparr>date_deleted := Some now\<rparr>) db')"

section \<open>Example data\<close>

text \<open>A \<open>MaximumLengthValidator\<close> with a given limit, as the pipeline holds it.\<close>

definition limit_validator :: "int \<Rightarrow> unit validator" where
  "limit_validator n = MaximumLengthValidator_object (MaximumLengthValidator_init (Some n))"

text \<open>A validator whose \<open>validate\<close> raises an exception that is not a \<open>ValidationError\<close>.\<close>

definition failing_validator :: "unit validator" where
  "failing_validator =
     \<lparr>validate = (\<lambda>password user. Inl (OtherException ''RuntimeError'')),
      get_help_text = Inr (Str ''Never <accepted>.'')\<rparr>"


text \<open>A validator whose help text is marked safe and holds markup of its own.\<close>

definition markup_validator :: "unit validator" where
  "markup_validator =
     \<lparr>validate = (\<lambda>password user. Inr ()),
      get_help_text = Inr (SafeString ''a<li>b'')\<rparr>"

definition maximum_length_descriptor :: "options option \<Rightarrow> descriptor" where
  "maximum_length_descriptor opts =
     \<lparr>NAME = ''sentry.auth.password_validation.MaximumLengthValidator'', OPTIONS = opts\<rparr>"

definition unknown_descriptor :: descriptor where
  "unknown_descriptor = \<lparr>NAME = ''sentry.auth.Missing'', OPTIONS = None\<rparr>"

text \<open>A table of three records, the second of them deleted at time 7, read at time 100.\<close>

definition example_row :: "nat \<Rightarrow> timestamp option \<Rightarrow> string row" where
  "example_row k t = \<lparr>pk = k, date_deleted = t, other_fields = ''name''\<rparr>"

definition example_database :: "string database" where
  "example_database =
     \<lparr>clock = 100, rows = [example_row 1 None, example_row 2 (Some 7), example_row 3 None]\<rparr>"

section \<open>Properties of the password validation\<close>

subsection \<open>Evaluating the examples\<close>

lemmas validator_evals =
  limit_validator_def failing_validator_def MaximumLengthValidator_object_def
  MaximumLengthValidator_init_def MaximumLengthValidator_validate_def
  satisfies_def violates_def failures_def ngettext_def

lemmas construct_evals =
  construct_def module_import_string_def maximum_length_descriptor_def unknown_descriptor_def
  get_OPTIONS_def MaximumLengthValidator_cls_def limit_validator_def

lemmas database_evals =
  example_database_def example_row_def

lemma decimal_digit: "n < 10 \<Longrightarrow> decimal n = [''0123456789'' ! n]"
  by (simp add: decimal.simps)

lemma list_of_three: "length xs = 3 \<Longrightarrow> xs = [xs ! 0, xs ! 1, xs ! 2]"
  by (auto simp: numeral_3_eq_3 length_Suc_conv)

subsection \<open>The loop of validate_password\<close>

lemma validate_password_loop_append:
  assumes "\<forall>v \<in> set before. satisfies password user v \<or> violates password user v"
  shows "validate_password_loop password user (before @ rest) errors calls =
           validate_password_loop password user rest
             (errors @ failures password user before) (calls + length before)"
  using assms
proof (induction before arbitrary: errors calls)
  case Nil
  then show ?case by (simp add: failures_def)
next
  case (Cons v vs)
  have rest: "\<forall>w \<in> set vs. satisfies password user w \<or> violates password user w"
    using Cons.prems by simp
  from Cons.prems have "satisfies password user v \<or> violates password user v" by simp
  then show ?case
  proof
    assume "satisfies password user v"
    then have v: "validate v password user = Inr ()" by (simp add: satisfies_def)
    show ?thesis
      using Cons.IH [OF rest] v by (simp add: failures_def)
  next
    assume "violates password user v"
    then obtain e where v: "validate v password user = Inl (ValidationError e)"
      unfolding violates_def by (cases "validate v password user" rule: failure.cases) auto
    show ?thesis
      using Cons.IH [OF rest] v by (simp add: failures_def)
  qed
qed



text \<open>
  C9. With an empty list of validators \<open>validate_password\<close> raises nothing and returns
  \<open>None\<close>, whatever the password and the user.
\<close>

theorem validate_password_empty:
  "validate_password import_string AUTH_PASSWORD_VALIDATORS password user (Some []) = Inr ()"
  by (simp add: validate_password_def validate_password_run_def)






text \<open>
  C10. When a validator raises an exception that is not a \<open>ValidationError\<close>, and the
  validators before it returned or raised a \<open>ValidationError\<close>, then that exception
  leaves \<open>validate_password\<close> as it is: no aggregate is built, and the validators
  after it are not run (the number of validators run is the position of the one that
  raised).
\<close>

theorem validate_password_propagates:
  assumes "\<forall>v \<in> set before. satisfies password user v \<or> violates password user v"
    and "validate validator password user = Inl e"
    and "\<not> is_ValidationError e"
  shows "validate_password_run import_string AUTH_PASSWORD_VALIDATORS password user
           (Some (before @ validator # rest)) = (Suc (length before), Inl e)"
proof -
  have step: "validate_password_loop password user (validator # rest) errors calls =
                (Suc calls, Inl e)" for errors calls
    using assms(2,3) by (cases e) simp_all
  show ?thesis
    using validate_password_loop_append [OF assms(1), of "validator # rest" "[]" 0] step
    by (simp add: validate_password_run_def)
qed

text \<open>
  An instance: the third of four validators raises a \<open>RuntimeError\<close>; three validators
  have run, and the \<open>ValidationError\<close> of the first is lost with the list of errors.
\<close>

theorem validate_password_propagates_witness:
  "validate_password_run module_import_string [] ''abcde'' None
     (Some [limit_validator 3, limit_validator 100, failing_validator, limit_validator 2]) =
   (3, Inl (OtherException ''RuntimeError''))"
proof -
  have h1: "\<forall>v \<in> set [limit_validator 3, limit_validator 100].
              satisfies ''abcde'' None v \<or> violates ''abcde'' None v"
    by (simp add: validator_evals)
  have h2: "validate failing_validator ''abcde'' None = Inl (OtherException ''RuntimeError'')"
    by (simp add: failing_validator_def)
  have h3: "\<not> is_ValidationError (OtherException ''RuntimeError'')" by simp
  show ?thesis
    using validate_password_propagates [OF h1 h2 h3, of module_import_string "[]" "[limit_validator 2]"]
    by simp
qed

subsection \<open>The loop of get_password_validators\<close>

lemma construct_Inr:
  "construct import_string d = Inr v \<longleftrightarrow>
     (\<exists>cls. import_string (NAME d) = Inr cls \<and> cls (get_OPTIONS d) = Inr v)"
  by (auto simp: construct_def split: sum.splits)

lemma get_password_validators_loop_append:
  assumes "map (construct import_string) before = map Inr instances"
  shows "get_password_validators_loop import_string (before @ rest) validators =
           get_password_validators_loop import_string rest (validators @ instances)"
  using assms
proof (induction before arbitrary: validators instances)
  case Nil
  then show ?case by simp
next
  case (Cons d ds)
  from Cons.prems obtain v vs where
    inst: "instances = v # vs" and v: "construct import_string d = Inr v"
    and vs: "map (construct import_string) ds = map Inr vs"
    by (cases instances) auto
  from v obtain cls where "import_string (NAME d) = Inr cls" "cls (get_OPTIONS d) = Inr v"
    by (auto simp: construct_Inr)
  then show ?case
    using Cons.IH [OF vs] inst by simp
qed

lemma get_password_validators_loop_unresolvable:
  assumes "unresolvable import_string (NAME d)"
  shows "get_password_validators_loop import_string (d # rest) validators =
           (validators, Inl (ImproperlyConfigured (improperly_configured_msg (NAME d))))"
proof -
  from assms obtain m where "import_string (NAME d) = Inl (ImportError m)"
    by (auto simp: unresolvable_def split: sum.splits exn.splits)
  then show ?thesis by simp
qed

text \<open>
  C3, as amended. When the descriptors before the first unresolvable name all resolve
  and their classes accept their options, \<open>get_password_validators\<close> raises
  \<open>ImproperlyConfigured\<close> with a message that contains the unresolvable name. The
  instances built before the failure are those of the descriptors before that name, and
  no others: none at all when the name is the first of the list.
\<close>

theorem get_password_validators_unresolvable:
  assumes "map (construct import_string) before = map Inr instances"
    and "unresolvable import_string (NAME validator)"
  shows "get_password_validators import_string (before @ validator # rest) =
           Inl (ImproperlyConfigured
                  (''The module in NAME could not be imported: '' @ NAME validator
                     @ ''. Check your AUTH_PASSWORD_VALIDATORS setting.''))
         \<and> instances_built import_string (before @ validator # rest) = instances"
  using get_password_validators_loop_append [OF assms(1), of "validator # rest" "[]"]
    get_password_validators_loop_unresolvable [OF assms(2), of rest instances]
  by (simp add: get_password_validators_def instances_built_def
      get_password_validators_run_def improperly_configured_msg_def)

text \<open>
  An instance: the second of three names does not resolve; the instance of the first
  descriptor has been built when the error is raised.
\<close>

theorem get_password_validators_unresolvable_witness:
  "get_password_validators (module_import_string :: unit import_string)
     [maximum_length_descriptor (Some [(''max_length'', 8)]), unknown_descriptor,
      maximum_length_descriptor None] =
     Inl (ImproperlyConfigured
       ''The module in NAME could not be imported: sentry.auth.Missing. Check your AUTH_PASSWORD_VALIDATORS setting.'')
   \<and> instances_built module_import_string
     [maximum_length_descriptor (Some [(''max_length'', 8)]), unknown_descriptor,
      maximum_length_descriptor None] = [limit_validator 8]"
proof -
  have h1: "map (construct module_import_string)
              [maximum_length_descriptor (Some [(''max_length'', 8)])] =
            map Inr [limit_validator 8]"
    by (simp add: construct_evals)
  have h2: "unresolvable (module_import_string :: unit import_string) (NAME unknown_descriptor)"
    by (simp add: unresolvable_def module_import_string_def unknown_descriptor_def)
  show ?thesis
    using get_password_validators_unresolvable [OF h1 h2, of "[maximum_length_descriptor None]"]
    by (simp add: unknown_descriptor_def)
qed

text \<open>
  C3 as stated says that no instance is built before the failure. The loop resolves and
  instantiates one descriptor after the other, so an unresolvable name that is not the
  first of the list is met after the instances of the descriptors before it were built.
\<close>

theorem instances_built_counterexample:
  "unresolvable (module_import_string :: unit import_string) (NAME unknown_descriptor)
   \<and> get_password_validators (module_import_string :: unit import_string)
       [maximum_length_descriptor None, unknown_descriptor] =
     Inl (ImproperlyConfigured (improperly_configured_msg (NAME unknown_descriptor)))
   \<and> instances_built (module_import_string :: unit import_string)
       [maximum_length_descriptor None, unknown_descriptor] \<noteq> []"
  by (simp add: unresolvable_def module_import_string_def unknown_descriptor_def
      maximum_length_descriptor_def instances_built_def get_password_validators_def
      get_password_validators_run_def get_OPTIONS_def MaximumLengthValidator_cls_def)

text \<open>
  C5, as amended. When every name of the configuration resolves and every class accepts
  the options of its descriptor, \<open>get_password_validators\<close> returns a list of as many
  instances as there are descriptors, the \<open>i\<close>-th being what the class of the \<open>i\<close>-th
  descriptor returned for the options of that descriptor.
\<close>

theorem get_password_validators_all:
  assumes "\<forall>d \<in> set validator_config.
             \<exists>cls v. import_string (NAME d) = Inr cls \<and> cls (get_OPTIONS d) = Inr v"
  shows "\<exists>instances.
           get_password_validators import_string validator_config = Inr instances
         \<and> length instances = length validator_config
         \<and> (\<forall>i < length validator_config.
               \<exists>cls. import_string (NAME (validator_config ! i)) = Inr cls
                   \<and> cls (get_OPTIONS (validator_config ! i)) = Inr (instances ! i))"
proof -
  from assms have "\<forall>d \<in> set validator_config. \<exists>v. construct import_string d = Inr v"
    by (simp add: construct_Inr) blast
  then obtain f where f: "\<forall>d \<in> set validator_config. construct import_string d = Inr (f d)"
    by metis
  define instances where "instances = map f validator_config"
  have m: "map (construct import_string) validator_config = map Inr instances"
    using f by (simp add: instances_def)
  have "get_password_validators import_string validator_config = Inr instances"
    using get_password_validators_loop_append [OF m, of "[]" "[]"]
    by (simp add: get_password_validators_def get_password_validators_run_def)
  moreover have "length instances = length validator_config"
    by (simp add: instances_def)
  moreover have "\<forall>i < length validator_config.
               \<exists>cls. import_string (NAME (validator_config ! i)) = Inr cls
                   \<and> cls (get_OPTIONS (validator_config ! i)) = Inr (instances ! i)"
    using f by (simp add: instances_def construct_Inr)
  ultimately show ?thesis by blast
qed

text \<open>
  An instance: two descriptors of \<open>MaximumLengthValidator\<close>, one with the default limit
  and one with the limit 8.
\<close>

theorem get_password_validators_all_witness:
  "\<exists>instances.
     get_password_validators (module_import_string :: unit import_string)
       [maximum_length_descriptor None, maximum_length_descriptor (Some [(''max_length'', 8)])] =
     Inr instances
   \<and> length instances = 2
   \<and> instances ! 0 = MaximumLengthValidator_object \<lparr>max_length = 256\<rparr>
   \<and> instances ! 1 = MaximumLengthValidator_object \<lparr>max_length = 8\<rparr>"
proof -
  let ?cfg = "[maximum_length_descriptor None, maximum_length_descriptor (Some [(''max_length'', 8)])]"
  have h: "\<forall>d \<in> set ?cfg.
             \<exists>cls v. (module_import_string :: unit import_string) (NAME d) = Inr cls
                    \<and> cls (get_OPTIONS d) = Inr v"
    by (simp add: construct_evals)
  from get_password_validators_all [OF h] obtain instances where
    r: "get_password_validators (module_import_string :: unit import_string) ?cfg = Inr instances"
    and l: "length instances = length ?cfg"
    and i: "\<forall>i < length ?cfg.
               \<exists>cls. (module_import_string :: unit import_string) (NAME (?cfg ! i)) = Inr cls
                   \<and> cls (get_OPTIONS (?cfg ! i)) = Inr (instances ! i)"
    by blast
  have "\<exists>cls. (module_import_string :: unit import_string) (NAME (?cfg ! 0)) = Inr cls
                   \<and> cls (get_OPTIONS (?cfg ! 0)) = Inr (instances ! 0)"
    using i [rule_format, of 0] by simp
  then have i0: "instances ! 0 = MaximumLengthValidator_object \<lparr>max_length = 256\<rparr>"
    by (auto simp: construct_evals MaximumLengthValidator_init_def)
  have "\<exists>cls. (module_import_string :: unit import_string) (NAME (?cfg ! 1)) = Inr cls
                   \<and> cls (get_OPTIONS (?cfg ! 1)) = Inr (instances ! 1)"
    using i [rule_format, of 1] by simp
  then have i1: "instances ! 1 = MaximumLengthValidator_object \<lparr>max_length = 8\<rparr>"
    by (auto simp: construct_evals MaximumLengthValidator_init_def)
  show ?thesis using r l i0 i1 by simp
qed

text \<open>
  C5 as stated asks only that the names resolve. A class may still refuse its options:
  \<open>MaximumLengthValidator\<close> has no keyword \<open>min_length\<close>, the call raises \<open>TypeError\<close>
  and \<open>get_password_validators\<close> returns no list.
\<close>

theorem unexpected_option_counterexample:
  "resolvable (module_import_string :: unit import_string)
     (NAME (maximum_length_descriptor (Some [(''min_length'', 8)])))
   \<and> get_password_validators (module_import_string :: unit import_string)
       [maximum_length_descriptor (Some [(''min_length'', 8)])] =
     Inl (TypeError ''__init__() got an unexpected keyword argument'')"
  by (simp add: resolvable_def module_import_string_def
      maximum_length_descriptor_def get_password_validators_def
      get_password_validators_run_def get_OPTIONS_def MaximumLengthValidator_cls_def)

subsection \<open>MaximumLengthValidator\<close>

text \<open>
  C4. A \<open>MaximumLengthValidator\<close> holds the limit it was configured with, 256 when none
  was given. Its \<open>validate\<close> returns for a password of at most that many characters, and
  raises a \<open>ValidationError\<close> with the code \<open>password_too_long\<close> and the parameter
  \<open>max_length\<close> for every longer password. The validator that the class returns for the
  options of a descriptor validates in this way.
\<close>

theorem MaximumLengthValidator_limit:
  assumes "limit = (case arg of None \<Rightarrow> 256 | Some m \<Rightarrow> m)"
  shows "max_length (MaximumLengthValidator_init arg) = limit
   \<and> (int (length password) \<le> limit \<longrightarrow>
        MaximumLengthValidator_validate (MaximumLengthValidator_init arg) password user = Inr ())
   \<and> (limit < int (length password) \<longrightarrow>
        MaximumLengthValidator_validate (MaximumLengthValidator_init arg) password user =
          Inl (ValidationError
            (SingleError
               (ErrorMessage
                  (ngettext
                     ''This password is too long. It must contain no more than %(max_length)d character.''
                     ''This password is too long. It must contain no more than %(max_length)d characters.''
                     limit)
                  (Some ''password_too_long'')
                  [(''max_length'', limit)]))))
   \<and> (\<exists>v. MaximumLengthValidator_cls
               (case arg of None \<Rightarrow> [] | Some m \<Rightarrow> [(''max_length'', m)]) = Inr v
          \<and> validate v password user =
              MaximumLengthValidator_validate (MaximumLengthValidator_init arg) password user)"
  using assms
  by (cases arg)
    (simp_all add: MaximumLengthValidator_validate_def MaximumLengthValidator_init_def
      MaximumLengthValidator_cls_def MaximumLengthValidator_object_def)

text \<open>
  An instance: the limit 3 with a password of three and one of four characters, and the
  default limit with a password of 256 and one of 257 characters.
\<close>

theorem MaximumLengthValidator_limit_witness:
  "MaximumLengthValidator_validate (MaximumLengthValidator_init (Some 3)) ''abc''
     (None :: unit option) = Inr ()
   \<and> MaximumLengthValidator_validate (MaximumLengthValidator_init (Some 3)) ''abcd''
     (None :: unit option) =
       Inl (ValidationError
         (SingleError
            (ErrorMessage
               ''This password is too long. It must contain no more than %(max_length)d characters.''
               (Some ''password_too_long'') [(''max_length'', 3)])))
   \<and> MaximumLengthValidator_validate (MaximumLengthValidator_init None)
     (replicate 256 CHR ''a'') (None :: unit option) = Inr ()
   \<and> MaximumLengthValidator_validate (MaximumLengthValidator_init None)
     (replicate 257 CHR ''a'') (None :: unit option) =
       Inl (ValidationError
         (SingleError
            (ErrorMessage
               ''This password is too long. It must contain no more than %(max_length)d characters.''
               (Some ''password_too_long'') [(''max_length'', 256)])))"
proof -
  have some: "(3::int) = (case Some 3 of None \<Rightarrow> 256 | Some m \<Rightarrow> m)" by simp
  have none: "(256::int) = (case None of None \<Rightarrow> 256 | Some m \<Rightarrow> m)" by simp
  show ?thesis
    using MaximumLengthValidator_limit [OF some, of "''abc''" "None :: unit option"]
      MaximumLengthValidator_limit [OF some, of "''abcd''" "None :: unit option"]
      MaximumLengthValidator_limit [OF none, of "replicate 256 CHR ''a''" "None :: unit option"]
      MaximumLengthValidator_limit [OF none, of "replicate 257 CHR ''a''" "None :: unit option"]
    by (simp add: ngettext_def)
qed

subsection \<open>Help texts\<close>

lemma password_validators_help_texts_loop_map:
  assumes "map get_help_text vs = map Inr texts"
  shows "password_validators_help_texts_loop vs help_texts = Inr (help_texts @ texts)"
  using assms
proof (induction vs arbitrary: help_texts texts)
  case Nil
  then show ?case by simp
next
  case (Cons v vs)
  from Cons.prems obtain t ts where
    "texts = t # ts" "get_help_text v = Inr t" "map get_help_text vs = map Inr ts"
    by (cases texts) auto
  then show ?case using Cons.IH [of ts "help_texts @ [t]"] by simp
qed

lemma escape_char_no_lt: "CHR ''<'' \<notin> set (escape_char c)"
  by (simp add: escape_char_def)

lemma escape_no_lt: "CHR ''<'' \<notin> set (escape s)"
  by (induction s) (simp_all add: escape_def escape_char_no_lt)

lemma conditional_escape_no_lt: "\<not> is_safe t \<Longrightarrow> CHR ''<'' \<notin> set (conditional_escape t)"
  by (cases t) (simp_all add: escape_no_lt)

lemma occurrences_skip:
  "c \<notin> set s \<Longrightarrow> occurrences (c # p) (s @ t) = occurrences (c # p) t"
  by (induction s) auto

lemma occurrences_li_item:
  assumes "\<not> is_safe help_text"
  shows "occurrences ''<li>'' (format_html_li help_text @ t) = Suc (occurrences ''<li>'' t)"
proof -
  have a: "CHR ''<'' \<notin> set (''li>'' @ conditional_escape help_text)"
    using conditional_escape_no_lt [OF assms] by simp
  have b: "CHR ''<'' \<notin> set ''/li>''" by simp
  have "occurrences ''<li>'' (format_html_li help_text @ t) =
          Suc (occurrences ''<li>'' ((''li>'' @ conditional_escape help_text) @ ''</li>'' @ t))"
    by (simp add: format_html_li_def)
  also have "\<dots> = Suc (occurrences ''<li>'' (''</li>'' @ t))"
    using occurrences_skip [OF a] by simp
  also have "\<dots> = Suc (occurrences ''<li>'' (''/li>'' @ t))"
    by simp
  also have "\<dots> = Suc (occurrences ''<li>'' t)"
    using occurrences_skip [OF b] by simp
  finally show ?thesis .
qed

lemma occurrences_li_items:
  "\<forall>t \<in> set help_texts. \<not> is_safe t \<Longrightarrow>
   occurrences ''<li>'' (concat (map format_html_li help_texts) @ t) =
     length help_texts + occurrences ''<li>'' t"
  by (induction help_texts) (simp_all add: occurrences_li_item)

lemma occurrences_li_ul:
  assumes "\<forall>t \<in> set help_texts. \<not> is_safe t"
  shows "occurrences ''<li>'' (''<ul>'' @ concat (map format_html_li help_texts) @ ''</ul>'') =
     length help_texts"
proof -
  have a: "CHR ''<'' \<notin> set ''ul>''" by simp
  have "occurrences ''<li>'' (''<ul>'' @ concat (map format_html_li help_texts) @ ''</ul>'') =
          occurrences ''<li>'' (''ul>'' @ concat (map format_html_li help_texts) @ ''</ul>'')"
    by simp
  also have "\<dots> = occurrences ''<li>'' (concat (map format_html_li help_texts) @ ''</ul>'')"
    using occurrences_skip [OF a] by simp
  also have "\<dots> = length help_texts"
    using assms by (simp add: occurrences_li_items)
  finally show ?thesis .
qed

text \<open>
  C8, as amended. When \<open>get_help_text\<close> of every validator of the list returns,
  \<open>password_validators_help_texts\<close> returns the texts returned, one for each validator,
  in the order of the list. The HTML is the empty string for no validator; otherwise it
  is a \<open>ul\<close> element around one \<open>li\<close> element for each help text, in order, which holds
  the text escaped, or as it is when the text is marked safe. When no help text is
  marked safe, \<open><li>\<close> occurs in the HTML once for each validator.
\<close>

theorem help_texts_one_per_validator:
  assumes "map get_help_text vs = map Inr help_texts"
  shows "password_validators_help_texts import_string AUTH_PASSWORD_VALIDATORS (Some vs) =
           Inr help_texts
   \<and> (\<exists>html. password_validators_help_text_html import_string AUTH_PASSWORD_VALIDATORS
                (Some vs) = Inr html
         \<and> (vs = [] \<longrightarrow> html = [])
         \<and> (vs \<noteq> [] \<longrightarrow>
              html = ''<ul>''
                @ concat (map (\<lambda>t. ''<li>'' @ conditional_escape t @ ''</li>'') help_texts)
                @ ''</ul>'')
         \<and> ((\<forall>t \<in> set help_texts. \<not> is_safe t) \<longrightarrow>
              occurrences ''<li>'' html = length vs))"
proof -
  have len: "length help_texts = length vs"
    using assms by (metis length_map)
  have texts: "password_validators_help_texts import_string AUTH_PASSWORD_VALIDATORS (Some vs) =
                 Inr help_texts"
    using password_validators_help_texts_loop_map [OF assms, of "[]"]
    by (simp add: password_validators_help_texts_def)
  have items: "map format_html_li help_texts =
                 map (\<lambda>t. ''<li>'' @ conditional_escape t @ ''</li>'') help_texts"
    by (simp add: format_html_li_def)
  show ?thesis
  proof (cases "vs = []")
    case True
    then have "help_texts = []" using len by simp
    then show ?thesis
      using True texts by (simp add: password_validators_help_text_html_def)
  next
    case False
    then have ne: "help_texts \<noteq> []" using len by auto
    have html: "password_validators_help_text_html import_string AUTH_PASSWORD_VALIDATORS
                  (Some vs) =
                Inr (''<ul>'' @ concat (map format_html_li help_texts) @ ''</ul>'')"
      using ne by (simp add: password_validators_help_text_html_def texts)
    have count: "(\<forall>t \<in> set help_texts. \<not> is_safe t) \<longrightarrow>
                 occurrences ''<li>''
                   (''<ul>'' @ concat (map format_html_li help_texts) @ ''</ul>'') = length vs"
      using occurrences_li_ul [of help_texts] len by simp
    show ?thesis
      using False texts html count items by simp
  qed
qed

text \<open>
  An instance: two validators; the second help text has characters that are escaped.
\<close>

theorem help_texts_one_per_validator_witness:
  "password_validators_help_texts module_import_string []
     (Some [limit_validator 1, failing_validator]) =
     Inr [Str ''Your password must contain no more than 1 character.'',
          Str ''Never <accepted>.'']
   \<and> password_validators_help_text_html module_import_string []
     (Some [limit_validator 1, failing_validator]) =
     Inr ''<ul><li>Your password must contain no more than 1 character.</li><li>Never &lt;accepted&gt;.</li></ul>''
   \<and> occurrences ''<li>''
     ''<ul><li>Your password must contain no more than 1 character.</li><li>Never &lt;accepted&gt;.</li></ul>'' = 2"
proof -
  let ?vs = "[limit_validator 1, failing_validator]"
  let ?texts = "[Str ''Your password must contain no more than 1 character.'',
                 Str ''Never <accepted>.'']"
  have h: "map get_help_text ?vs = map Inr ?texts"
    by (simp add: limit_validator_def failing_validator_def MaximumLengthValidator_object_def
        MaximumLengthValidator_init_def MaximumLengthValidator_get_help_text_def
        format_d_def ngettext_def decimal_digit)
  have e1: "escape ''Your password must contain no more than 1 character.'' =
              ''Your password must contain no more than 1 character.''"
    by (simp add: escape_def escape_char_def)
  have e2: "escape ''Never <accepted>.'' = ''Never &lt;accepted&gt;.''"
    by (simp add: escape_def escape_char_def)
  from help_texts_one_per_validator [OF h, of module_import_string "[]"] obtain html where
    t: "password_validators_help_texts module_import_string [] (Some ?vs) = Inr ?texts"
    and r: "password_validators_help_text_html module_import_string [] (Some ?vs) = Inr html"
    and s: "?vs \<noteq> [] \<longrightarrow>
              html = ''<ul>''
                @ concat (map (\<lambda>t. ''<li>'' @ conditional_escape t @ ''</li>'') ?texts)
                @ ''</ul>''"
    and c: "(\<forall>t \<in> set ?texts. \<not> is_safe t) \<longrightarrow> occurrences ''<li>'' html = length ?vs"
    by blast
  have html: "html = ''<ul><li>Your password must contain no more than 1 character.</li><li>Never &lt;accepted&gt;.</li></ul>''"
    using s by (simp add: e1 e2)
  have "occurrences ''<li>'' html = 2"
    using c by simp
  then show ?thesis
    using t r html by simp
qed

text \<open>
  C8 as stated counts one \<open><li>\<close> for each help text, whatever the texts. A help text
  that is marked safe is not escaped, and markup of its own stands in the HTML: here one
  validator, and two \<open><li>\<close>.
\<close>

theorem help_text_markup_counterexample:
  "password_validators_help_text_html module_import_string [] (Some [markup_validator]) =
     Inr ''<ul><li>a<li>b</li></ul>''
   \<and> occurrences ''<li>'' ''<ul><li>a<li>b</li></ul>'' = 2"
  by (simp add: markup_validator_def password_validators_help_text_html_def
      password_validators_help_texts_def format_html_li_def)

section \<open>Properties of the soft deletion\<close>

lemma ParanoidModel_delete_rows:
  "ParanoidModel_delete elapsed self db =
     (self\<lparr>date_deleted := Some (clock db + elapsed)\<rparr>,
      \<lparr>clock = clock db + elapsed,
       rows = map (\<lambda>r. if pk r = pk self
                        then r\<lparr>date_deleted := Some (clock db + elapsed)\<rparr> else r) (rows db)\<rparr>)"
  by (simp add: ParanoidModel_delete_def timezone_now_def BaseModel_update_def
      QuerySet_update_def QuerySet_filter_def BaseManager_get_queryset_def QuerySet_init_def)

lemma ParanoidQuerySet_delete_rows:
  "ParanoidQuerySet_delete elapsed qs db =
     \<lparr>clock = clock db + elapsed,
      rows = map (\<lambda>r. if condition qs r
                       then r\<lparr>date_deleted := Some (clock db + elapsed)\<rparr> else r) (rows db)\<rparr>"
  by (simp add: ParanoidQuerySet_delete_def timezone_now_def QuerySet_update_def)

lemma set_objects: "set (objects db) = {r \<in> set (rows db). date_deleted r = None}"
  by (auto simp: objects_def QuerySet_fetch_def ParanoidManager_get_queryset_def
      QuerySet_filter_def QuerySet_init_def date_deleted__isnull_def)

lemma with_deleted_rows: "with_deleted db = rows db"
  by (simp add: with_deleted_def QuerySet_fetch_def BaseManager_get_queryset_def QuerySet_init_def)

text \<open>
  C2. After \<open>delete\<close> on a record that the default manager returns, the default manager
  returns no record with its primary key, the unfiltered manager still returns the
  record, and its \<open>date_deleted\<close> is a time not before the time of the call.
\<close>

theorem soft_delete:
  assumes "self \<in> set (objects db)"
    and "ParanoidModel_delete elapsed self db = (self', db')"
  shows "(\<forall>r \<in> set (objects db'). pk r \<noteq> pk self)
       \<and> (\<exists>t. clock db \<le> t
              \<and> date_deleted self' = Some t
              \<and> self\<lparr>date_deleted := Some t\<rparr> \<in> set (with_deleted db')
              \<and> (\<forall>r \<in> set (with_deleted db'). pk r = pk self \<longrightarrow> date_deleted r = Some t))"
proof -
  let ?t = "clock db + elapsed"
  have self': "self' = self\<lparr>date_deleted := Some ?t\<rparr>"
    and rows': "rows db' = map (\<lambda>r. if pk r = pk self then r\<lparr>date_deleted := Some ?t\<rparr> else r)
                             (rows db)"
    using assms(2) by (auto simp: ParanoidModel_delete_rows)
  have stored: "self \<in> set (rows db)"
    using assms(1) by (simp add: set_objects)
  have hidden: "\<forall>r \<in> set (objects db'). pk r \<noteq> pk self"
    by (auto simp: set_objects rows')
  have kept: "self\<lparr>date_deleted := Some ?t\<rparr> \<in> set (with_deleted db')"
    using stored by (force simp: with_deleted_rows rows')
  have stamped: "\<forall>r \<in> set (with_deleted db'). pk r = pk self \<longrightarrow> date_deleted r = Some ?t"
    by (auto simp: with_deleted_rows rows')
  have "clock db \<le> ?t" by simp
  then show ?thesis
    using hidden kept stamped self' by (intro conjI exI [of _ ?t]) simp_all
qed

text \<open>An instance: the first record of the example table, deleted five ticks later.\<close>

theorem soft_delete_witness:
  "example_row 1 None \<in> set (objects example_database)
   \<and> ParanoidModel_delete 5 (example_row 1 None) example_database =
       (example_row 1 (Some 105),
        \<lparr>clock = 105,
         rows = [example_row 1 (Some 105), example_row 2 (Some 7), example_row 3 None]\<rparr>)
   \<and> example_row 1 (Some 105) \<in> set (with_deleted
        \<lparr>clock = 105,
         rows = [example_row 1 (Some 105), example_row 2 (Some 7), example_row 3 None]\<rparr>)
   \<and> objects
        \<lparr>clock = 105,
         rows = [example_row 1 (Some 105), example_row 2 (Some 7), example_row 3 None]\<rparr>
       = [example_row 3 None]"
proof -
  let ?db' = "\<lparr>clock = 105,
         rows = [example_row 1 (Some 105), example_row 2 (Some 7), example_row 3 None]\<rparr>"
  have h1: "example_row 1 None \<in> set (objects example_database)"
    by (simp add: set_objects database_evals)
  have h2: "ParanoidModel_delete 5 (example_row 1 None) example_database =
              (example_row 1 (Some 105), ?db')"
    by (simp add: ParanoidModel_delete_rows database_evals)
  have o: "objects ?db' = [example_row 3 None]"
    by (simp add: objects_def QuerySet_fetch_def ParanoidManager_get_queryset_def
        QuerySet_filter_def QuerySet_init_def date_deleted__isnull_def example_row_def)
  from soft_delete [OF h1 h2] obtain t where
    "(example_row 1 None)\<lparr>date_deleted := Some t\<rparr> \<in> set (with_deleted ?db')"
    and "date_deleted (example_row 1 (Some 105)) = Some t"
    by blast
  then have "example_row 1 (Some 105) \<in> set (with_deleted ?db')"
    by (simp add: example_row_def)
  then show ?thesis using h1 h2 o by simp
qed

text \<open>
  C6. \<open>ParanoidQuerySet.delete\<close> writes the time of the call to \<open>date_deleted\<close> of every
  row that meets the condition of the query set and changes nothing else: the rows that
  do not meet it are as they were, and the table has the same rows, by primary key and
  position, as before.
\<close>

theorem bulk_delete:
  assumes "db' = ParanoidQuerySet_delete elapsed qs db"
  shows "length (rows db') = length (rows db)
       \<and> map pk (rows db') = map pk (rows db)
       \<and> (\<forall>i < length (rows db).
            (condition qs (rows db ! i) \<longrightarrow>
               rows db' ! i = (rows db ! i)\<lparr>date_deleted := Some (clock db + elapsed)\<rparr>)
          \<and> (\<not> condition qs (rows db ! i) \<longrightarrow> rows db' ! i = rows db ! i))"
  using assms by (simp add: ParanoidQuerySet_delete_rows comp_def)

text \<open>
  An instance: the records of the default manager with a primary key up to 2. The first
  record is stamped; the second, deleted before, and the third keep what they had.
\<close>

theorem bulk_delete_witness:
  "rows (ParanoidQuerySet_delete 5
          (QuerySet_filter ParanoidManager_get_queryset (\<lambda>r. pk r \<le> 2)) example_database) =
     [example_row 1 (Some 105), example_row 2 (Some 7), example_row 3 None]"
proof -
  let ?qs = "QuerySet_filter ParanoidManager_get_queryset (\<lambda>r. pk r \<le> 2) :: string QuerySet"
  let ?db' = "ParanoidQuerySet_delete 5 ?qs example_database"
  have c: "condition ?qs (example_row 1 None)" "\<not> condition ?qs (example_row 2 (Some 7))"
    "\<not> condition ?qs (example_row 3 None)"
    by (simp_all add: QuerySet_filter_def ParanoidManager_get_queryset_def QuerySet_init_def
        date_deleted__isnull_def example_row_def)
  from bulk_delete [OF refl, of 5 ?qs example_database] have
    l: "length (rows ?db') = length (rows example_database)"
    and i: "\<forall>i < length (rows example_database).
            (condition ?qs (rows example_database ! i) \<longrightarrow>
               rows ?db' ! i =
                 (rows example_database ! i)\<lparr>date_deleted := Some (clock example_database + 5)\<rparr>)
          \<and> (\<not> condition ?qs (rows example_database ! i) \<longrightarrow>
               rows ?db' ! i = rows example_database ! i)"
    by blast+
  have r0: "rows ?db' ! 0 = example_row 1 (Some 105)"
    using i [rule_format, of 0] c by (simp add: example_database_def) (simp add: example_row_def)
  have r1: "rows ?db' ! 1 = example_row 2 (Some 7)"
    using i [rule_format, of 1] c by (simp add: example_database_def)
  have r2: "rows ?db' ! 2 = example_row 3 None"
    using i [rule_format, of 2] c by (simp add: example_database_def)
  have "length (rows ?db') = 3"
    using l by (simp add: example_database_def)
  from list_of_three [OF this] show ?thesis
    by (simp only: r0 r1 r2)
qed

text \<open>
  C7. After two calls of \<open>delete\<close> on a record, its \<open>date_deleted\<close> is set, to a time not
  before the one the first call wrote; the stored rows of the record carry that time,
  the default manager does not return them, and no row has left the table.
\<close>

theorem delete_twice:
  assumes "ParanoidModel_delete elapsed1 self db = (self1, db1)"
    and "ParanoidModel_delete elapsed2 self1 db1 = (self2, db2)"
  shows "\<exists>t1 t2. date_deleted self1 = Some t1
           \<and> date_deleted self2 = Some t2
           \<and> t1 \<le> t2
           \<and> (\<forall>r \<in> set (with_deleted db2). pk r = pk self \<longrightarrow> date_deleted r = Some t2)
           \<and> (\<forall>r \<in> set (objects db2). pk r \<noteq> pk self)
           \<and> map pk (with_deleted db2) = map pk (with_deleted db)"
proof -
  let ?t1 = "clock db + elapsed1"
  let ?t2 = "clock db + elapsed1 + elapsed2"
  have self1: "self1 = self\<lparr>date_deleted := Some ?t1\<rparr>"
    and clock1: "clock db1 = ?t1"
    and rows1: "rows db1 = map (\<lambda>r. if pk r = pk self then r\<lparr>date_deleted := Some ?t1\<rparr> else r)
                             (rows db)"
    using assms(1) by (auto simp: ParanoidModel_delete_rows)
  have pk1: "pk self1 = pk self" by (simp add: self1)
  have self2: "self2 = self1\<lparr>date_deleted := Some ?t2\<rparr>"
    and rows2: "rows db2 = map (\<lambda>r. if pk r = pk self then r\<lparr>date_deleted := Some ?t2\<rparr> else r)
                             (rows db1)"
    using assms(2) by (auto simp: ParanoidModel_delete_rows clock1 pk1)
  have a: "date_deleted self1 = Some ?t1" by (simp add: self1)
  have b: "date_deleted self2 = Some ?t2" by (simp add: self2)
  have c: "?t1 \<le> ?t2" by simp
  have d: "\<forall>r \<in> set (with_deleted db2). pk r = pk self \<longrightarrow> date_deleted r = Some ?t2"
    by (auto simp: with_deleted_rows rows2)
  have e: "\<forall>r \<in> set (objects db2). pk r \<noteq> pk self"
    by (auto simp: set_objects rows2)
  have f: "map pk (with_deleted db2) = map pk (with_deleted db)"
    by (simp add: with_deleted_rows rows2 rows1 comp_def)
  show ?thesis
    using a b c d e f by blast
qed

text \<open>An instance: the first record deleted at time 105 and again at time 108.\<close>

theorem delete_twice_witness:
  "ParanoidModel_delete 5 (example_row 1 None) example_database =
     (example_row 1 (Some 105),
      \<lparr>clock = 105,
       rows = [example_row 1 (Some 105), example_row 2 (Some 7), example_row 3 None]\<rparr>)
   \<and> ParanoidModel_delete 3 (example_row 1 (Some 105))
        \<lparr>clock = 105,
         rows = [example_row 1 (Some 105), example_row 2 (Some 7), example_row 3 None]\<rparr> =
     (example_row 1 (Some 108),
      \<lparr>clock = 108,
       rows = [example_row 1 (Some 108), example_row 2 (Some 7), example_row 3 None]\<rparr>)
   \<and> (\<exists>t1 t2. date_deleted (example_row 1 (Some 105)) = Some t1
         \<and> date_deleted (example_row 1 (Some 108)) = Some t2 \<and> t1 \<le> t2)"
proof -
  let ?db1 = "\<lparr>clock = 105,
       rows = [example_row 1 (Some 105), example_row 2 (Some 7), example_row 3 None]\<rparr>"
  let ?db2 = "\<lparr>clock = 108,
       rows = [example_row 1 (Some 108), example_row 2 (Some 7), example_row 3 None]\<rparr>"
  have h1: "ParanoidModel_delete 5 (example_row 1 None) example_database =
              (example_row 1 (Some 105), ?db1)"
    by (simp add: ParanoidModel_delete_rows database_evals)
  have h2: "ParanoidModel_delete 3 (example_row 1 (Some 105)) ?db1 =
              (example_row 1 (Some 108), ?db2)"
    by (simp add: ParanoidModel_delete_rows database_evals)
  from delete_twice [OF h1 h2] have
    "\<exists>t1 t2. date_deleted (example_row 1 (Some 105)) = Some t1
         \<and> date_deleted (example_row 1 (Some 108)) = Some t2 \<and> t1 \<le> t2"
    by blast
  then show ?thesis using h1 h2 by simp
qed

end
